theory Spec2Isabelle
  imports Complex_Main
begin

section \<open>The parsed project document\<close>

text \<open>
  Modelled from the spec: the type declarations of \<^verbatim>\<open>./csproj\<close> (\<^verbatim>\<open>Csproj\<close>,
  \<^verbatim>\<open>PropertyGroup\<close>, \<^verbatim>\<open>Using\<close>), which \<^verbatim>\<open>csprojReader.ts\<close> imports and which are not
  among the sources. The records follow the spec's data model (a Project node with its
  ordered PropertyGroup and ItemGroup children and its Import reference) in the shape in
  which the reader accesses it: each optional member is an \<open>option\<close> (\<open>None\<close> is
  JavaScript's \<^verbatim>\<open>undefined\<close>), and each child element is a list, since the reader
  indexes and iterates them as arrays, in document order. The member \<^verbatim>\<open>$\<close> (the
  attributes of an element) is named \<open>Using_attrs\<close> and \<open>Import_attrs\<close>; the attribute
  \<^verbatim>\<open>Project\<close> of an \<^verbatim>\<open>Import\<close> element is named \<open>Project_attr\<close>, since the member
  \<^verbatim>\<open>Project\<close> of the root is a field already.
\<close>

record property_group =
  RootNamespace :: "string list option"
  TargetFramework :: "string list option"
  ImplicitUsings :: "string list option"

record using_attrs =
  Include :: "string option"
  Remove :: "string option"

record using_elem =
  Using_attrs :: "using_attrs option"

record item_group =
  Using :: "using_elem list option"

record import_attrs =
  Project_attr :: "string option"

record import_elem =
  Import_attrs :: "import_attrs option"

record project =
  PropertyGroup :: "property_group list option"
  ItemGroup :: "item_group list option"
  Import :: "import_elem list option"

record csproj =
  Project :: "project option"

section \<open>Collaborators and effects\<close>

text \<open>
  What a rejected promise or a thrown exception carries: a failed read of the storage
  collaborator, a failure of the XML parser, or the \<^verbatim>\<open>TypeError\<close> that JavaScript raises
  when a member of \<^verbatim>\<open>undefined\<close> is accessed.
\<close>

datatype fault = ReadError | ParseError | TypeError

text \<open>
  The observable steps of a query, in the order they happen: \<^verbatim>\<open>FileHandler.read(p)\<close>,
  \<^verbatim>\<open>xmlParser.parseStringPromise(c)\<close> and \<^verbatim>\<open>Logger.error(...)\<close>.
\<close>

datatype event = Read string | Parse string | LogError fault

text \<open>
  The collaborators of the reader, none of which is defined in \<^verbatim>\<open>csprojReader.ts\<close>:
  the storage \<^verbatim>\<open>FileHandler.read\<close>, the parser \<^verbatim>\<open>Parser.parseStringPromise\<close> of
  \<^verbatim>\<open>xml2js\<close> (\<open>Inr None\<close> is the \<^verbatim>\<open>null\<close> result), and \<^verbatim>\<open>path.sep\<close>,
  \<^verbatim>\<open>path.dirname\<close>, \<^verbatim>\<open>path.resolve\<close> of the platform. They are parameters of the model.
\<close>

record env =
  read :: "string \<Rightarrow> fault + string"
  parseStringPromise :: "string \<Rightarrow> fault + csproj option"
  sep :: char
  dirname :: "string \<Rightarrow> string"
  resolve :: "string \<Rightarrow> string \<Rightarrow> string"

section \<open>JavaScript primitives used by the reader\<close>

text \<open>\<^verbatim>\<open>xs[0]\<close>: the first element, \<^verbatim>\<open>undefined\<close> on an empty array.\<close>

definition at0 :: "'a list \<Rightarrow> 'a option" where
  "at0 xs = (case xs of [] \<Rightarrow> None | x # _ \<Rightarrow> Some x)"

definition backslash :: char where
  "backslash = CHR 0x5C"

text \<open>
  \<^verbatim>\<open>s.replace(a, b)\<close> with a one-character string pattern \<open>a\<close> and a one-character
  replacement \<open>b\<close>: a string pattern replaces the first occurrence only.
\<close>

fun replace :: "char \<Rightarrow> char \<Rightarrow> string \<Rightarrow> string" where
  "replace a b [] = []"
| "replace a b (c # cs) = (if c = a then b # cs else c # replace a b cs)"

text \<open>\<^verbatim>\<open>xmlContent?.Project?.PropertyGroup\<close> and its two siblings.\<close>

definition Project_PropertyGroup :: "csproj option \<Rightarrow> property_group list option" where
  "Project_PropertyGroup xmlContent = Option.bind (Option.bind xmlContent Project) PropertyGroup"

definition Project_Import :: "csproj option \<Rightarrow> import_elem list option" where
  "Project_Import xmlContent = Option.bind (Option.bind xmlContent Project) Import"

definition Project_ItemGroup :: "csproj option \<Rightarrow> item_group list option" where
  "Project_ItemGroup xmlContent = Option.bind (Option.bind xmlContent Project) ItemGroup"

subsection \<open>The regular expression of the version check\<close>

definition isDigit :: "char \<Rightarrow> bool" where
  "isDigit c = (c \<in> set ''0123456789'')"

text \<open>
  The look-behind \<^verbatim>\<open>(?<=net)\<close> under the flag \<^verbatim>\<open>i\<close>: the three characters before
  the match are n, e, t in either case.
\<close>

definition net_ci :: "char \<Rightarrow> char \<Rightarrow> char \<Rightarrow> bool" where
  "net_ci a b c = ((a = CHR ''n'' \<or> a = CHR ''N'') \<and> (b = CHR ''e'' \<or> b = CHR ''E'')
     \<and> (c = CHR ''t'' \<or> c = CHR ''T''))"

text \<open>\<^verbatim>\<open>(\.\d+)*\<close>, greedy: as many groups of a dot and a run of digits as there are.\<close>

function dot_groups :: "string \<Rightarrow> string" where
  "dot_groups [] = []"
| "dot_groups (c # cs) =
     (if c = CHR ''.'' \<and> takeWhile isDigit cs \<noteq> []
      then c # takeWhile isDigit cs @ dot_groups (dropWhile isDigit cs)
      else [])"
  by pat_completeness auto
termination
  by (relation "measure length") (auto simp: length_dropWhile_le le_imp_less_Suc)

text \<open>\<^verbatim>\<open>\d+(\.\d+)*\<close> at a position that starts with a digit.\<close>

definition numeric_run :: "string \<Rightarrow> string" where
  "numeric_run s = takeWhile isDigit s @ dot_groups (dropWhile isDigit s)"

text \<open>
  \<^verbatim>\<open>targetFramework.match(/(?<=net)\d+(\.\d+)*/i)\<close>: \<open>None\<close> is \<^verbatim>\<open>null\<close>, \<open>Some m\<close> is
  the array whose element 0 is the matched text \<open>m\<close>. The leftmost match starts at the
  leftmost digit that has n, e, t before it.
\<close>

fun version_match :: "string \<Rightarrow> string option" where
  "version_match (a # b # c # d # rest) =
     (if net_ci a b c \<and> isDigit d then Some (numeric_run (d # rest))
      else version_match (b # c # d # rest))"
| "version_match _ = None"

text \<open>
  \<^verbatim>\<open>Number.isNaN(x)\<close> on a string: it does not convert its argument, and is false for
  every value that is not of type Number.
\<close>

definition Number_isNaN :: "string \<Rightarrow> bool" where
  "Number_isNaN x = False"

definition digits_value :: "string \<Rightarrow> int" where
  "digits_value s = foldl (\<lambda>acc c. 10 * acc + (of_char c - 48)) 0 s"

text \<open>
  The mathematical value of a string as a decimal literal (digits, at most one dot, a
  digit on one side of it at least; the empty string is 0), \<open>None\<close> when the string is no
  such literal and \<^verbatim>\<open>Number\<close> gives \<^verbatim>\<open>NaN\<close>. This is \<^verbatim>\<open>Number\<close> on strings of digits and
  dots, which is all that \<open>version_match\<close> returns; signs, exponents, white space and
  the other literal forms are not modelled.
\<close>

definition decimal_value :: "string \<Rightarrow> rat option" where
  "decimal_value s =
     (let ip = takeWhile (\<lambda>c. c \<noteq> CHR ''.'') s;
          r = dropWhile (\<lambda>c. c \<noteq> CHR ''.'') s
      in if \<not> list_all isDigit ip then None
         else (case r of
             [] \<Rightarrow> Some (of_int (digits_value ip))
           | _ # fp \<Rightarrow>
               if \<not> list_all isDigit fp \<or> (ip = [] \<and> fp = []) then None
               else Some (of_int (digits_value ip) + of_int (digits_value fp) / 10 ^ length fp)))"

text \<open>
  \<^verbatim>\<open>Number(s) >= 6\<close>. \<^verbatim>\<open>NaN >= 6\<close> is false. Otherwise \<^verbatim>\<open>Number\<close> rounds the decimal
  value to the nearest double, ties to even: the double below 6 is \<open>6 - 1 / 2 ^ 50\<close>, and
  the tie between the two goes to 6, so the rounded value is at least 6 exactly when the
  decimal value is at least \<open>6 - 1 / 2 ^ 51\<close>.
\<close>

definition Number_ge_6 :: "string \<Rightarrow> bool" where
  "Number_ge_6 s = (case decimal_value s of None \<Rightarrow> False | Some v \<Rightarrow> 6 - 1 / 2 ^ 51 \<le> v)"

section \<open>CsprojReader\<close>

text \<open>
  Every method takes the collaborators and \<^verbatim>\<open>this.filePath\<close>, and returns its result
  with the events it caused. A method that can reject returns \<open>fault + 'a\<close>.
\<close>

definition getContent :: "env \<Rightarrow> string \<Rightarrow> string option \<Rightarrow> (fault + string) \<times> event list" where
  "getContent env this_filePath filePath =
     (let p = (case filePath of None \<Rightarrow> this_filePath | Some q \<Rightarrow> q)
      in (read env p, [Read p]))"

definition getXmlContent :: "env \<Rightarrow> string \<Rightarrow> string option \<Rightarrow> (fault + csproj option) \<times> event list" where
  "getXmlContent env this_filePath filePath =
     (case getContent env this_filePath filePath of
        (Inl err, t) \<Rightarrow> (Inl err, t)
      | (Inr content, t) \<Rightarrow> (parseStringPromise env content, t @ [Parse content]))"

text \<open>
  The two local constants of \<^verbatim>\<open>getPropertyGroups\<close>:
  \<^verbatim>\<open>importProject[0].$.Project.replace('\\', path.sep).replace('/', path.sep)\<close> and
  \<^verbatim>\<open>path.resolve(path.dirname(this.filePath), cleanPath)\<close>.
\<close>

definition cleanPath :: "env \<Rightarrow> string \<Rightarrow> string" where
  "cleanPath env ref = replace (CHR ''/'') (sep env) (replace backslash (sep env) ref)"

definition projectPath :: "env \<Rightarrow> string \<Rightarrow> string \<Rightarrow> string" where
  "projectPath env this_filePath ref = resolve env (dirname env this_filePath) (cleanPath env ref)"

definition getPropertyGroups ::
    "env \<Rightarrow> string \<Rightarrow> (fault + property_group list option) \<times> event list" where
  "getPropertyGroups env this_filePath =
     (case getXmlContent env this_filePath None of
        (Inl err, t) \<Rightarrow> (Inl err, t)
      | (Inr xmlContent, t) \<Rightarrow>
          (case Project_PropertyGroup xmlContent of
             Some groups \<Rightarrow> (Inr (Some groups), t)
           | None \<Rightarrow>
               (case Project_Import xmlContent of
                  None \<Rightarrow> (Inr None, t)
                | Some [] \<Rightarrow> (Inr None, t)
                | Some (imp # _) \<Rightarrow>
                    (case Option.bind (Import_attrs imp) Project_attr of
                       None \<Rightarrow> (Inl TypeError, t)
                     | Some ref \<Rightarrow>
                         (case getXmlContent env this_filePath
                                 (Some (projectPath env this_filePath ref)) of
                            (Inl err, t') \<Rightarrow> (Inl err, t @ t')
                          | (Inr importXmlContent, t') \<Rightarrow>
                              (Inr (Project_PropertyGroup importXmlContent), t @ t'))))))"

definition getRootNamespace :: "env \<Rightarrow> string \<Rightarrow> string option \<times> event list" where
  "getRootNamespace env this_filePath =
     (case getPropertyGroups env this_filePath of
        (Inl errParsingXml, t) \<Rightarrow> (None, t @ [LogError errParsingXml])
      | (Inr propertyGroups, t) \<Rightarrow>
          (case Option.bind propertyGroups (find (\<lambda>p. RootNamespace p \<noteq> None)) of
             None \<Rightarrow> (None, t)
           | Some p \<Rightarrow>
               (case RootNamespace p of None \<Rightarrow> (None, t) | Some vs \<Rightarrow> (at0 vs, t))))"

definition getTargetFramework :: "env \<Rightarrow> string \<Rightarrow> string option \<times> event list" where
  "getTargetFramework env this_filePath =
     (case getPropertyGroups env this_filePath of
        (Inl errParsingXml, t) \<Rightarrow> (None, t @ [LogError errParsingXml])
      | (Inr propertyGroups, t) \<Rightarrow>
          (case Option.bind propertyGroups (find (\<lambda>p. TargetFramework p \<noteq> None)) of
             None \<Rightarrow> (None, t)
           | Some p \<Rightarrow>
               (case TargetFramework p of None \<Rightarrow> (None, t) | Some vs \<Rightarrow> (at0 vs, t))))"

definition isTargetFrameworkHigherThanOrEqualToDotNet6 ::
    "env \<Rightarrow> string \<Rightarrow> bool option \<times> event list" where
  "isTargetFrameworkHigherThanOrEqualToDotNet6 env this_filePath =
     (case getTargetFramework env this_filePath of
        (None, t) \<Rightarrow> (None, t)
      | (Some targetFramework, t) \<Rightarrow>
          if targetFramework = [] then (None, t)
          else (case version_match targetFramework of
                  None \<Rightarrow> (Some False, t)
                | Some m \<Rightarrow> if Number_isNaN m then (Some False, t) else (Some (Number_ge_6 m), t)))"

definition useImplicitUsings :: "env \<Rightarrow> string \<Rightarrow> bool \<times> event list" where
  "useImplicitUsings env this_filePath =
     (case getPropertyGroups env this_filePath of
        (Inl errParsingXml, t) \<Rightarrow> (False, t @ [LogError errParsingXml])
      | (Inr propertyGroups, t) \<Rightarrow>
          (case Option.bind propertyGroups (find (\<lambda>p. ImplicitUsings p \<noteq> None)) of
             None \<Rightarrow> (False, t)
           | Some p \<Rightarrow>
               (case ImplicitUsings p of
                  None \<Rightarrow> (False, t)
                | Some vs \<Rightarrow> (at0 vs = Some ''enable'', t))))"

definition getUsings :: "env \<Rightarrow> string \<Rightarrow> (fault + using_elem list) \<times> event list" where
  "getUsings env this_filePath =
     (case getXmlContent env this_filePath None of
        (Inl err, t) \<Rightarrow> (Inl err, t)
      | (Inr xmlContent, t) \<Rightarrow>
          (case Project_ItemGroup xmlContent of
             None \<Rightarrow> (Inr [], t)
           | Some groups \<Rightarrow>
               (Inr (concat (map (\<lambda>g. case Using g of None \<Rightarrow> [] | Some us \<Rightarrow> us)
                       (filter (\<lambda>g. Using g \<noteq> None) groups))), t)))"

definition getUsingsInclude :: "env \<Rightarrow> string \<Rightarrow> (fault + string list) \<times> event list" where
  "getUsingsInclude env this_filePath =
     (case getUsings env this_filePath of
        (Inl err, t) \<Rightarrow> (Inl err, t)
      | (Inr usings, t) \<Rightarrow>
          (Inr (List.map_filter (\<lambda>u. Option.bind (Using_attrs u) Include) usings), t))"

definition getUsingsRemove :: "env \<Rightarrow> string \<Rightarrow> (fault + string list) \<times> event list" where
  "getUsingsRemove env this_filePath =
     (case getUsings env this_filePath of
        (Inl err, t) \<Rightarrow> (Inl err, t)
      | (Inr usings, t) \<Rightarrow>
          (Inr (List.map_filter (\<lambda>u. Option.bind (Using_attrs u) Remove) usings), t))"

section \<open>Test doubles\<close>

text \<open>
  The reader's tests replace \<^verbatim>\<open>FileHandler.read\<close> by a fake that resolves to a fixed
  content. The doubles below do the same for the examples of this theory: a storage
  given by a table from paths to contents, a parser given by a table from contents to
  parsed documents (a content that is not in the table is rejected), and a POSIX
  platform whose \<open>resolve\<close> joins the directory and the reference.
\<close>

definition fake_read :: "(string \<times> string) list \<Rightarrow> string \<Rightarrow> fault + string" where
  "fake_read files p = (case map_of files p of None \<Rightarrow> Inl ReadError | Some c \<Rightarrow> Inr c)"

definition fake_parse :: "(string \<times> csproj option) list \<Rightarrow> string \<Rightarrow> fault + csproj option" where
  "fake_parse docs c = (case map_of docs c of None \<Rightarrow> Inl ParseError | Some d \<Rightarrow> Inr d)"

definition fake_dirname :: "string \<Rightarrow> string" where
  "fake_dirname p = rev (drop 1 (dropWhile (\<lambda>c. c \<noteq> CHR ''/'') (rev p)))"

definition fake_resolve :: "string \<Rightarrow> string \<Rightarrow> string" where
  "fake_resolve d p = d @ ''/'' @ p"

definition fake_env :: "(string \<times> string) list \<Rightarrow> (string \<times> csproj option) list \<Rightarrow> env" where
  "fake_env files docs =
     \<lparr>read = fake_read files, parseStringPromise = fake_parse docs, sep = CHR ''/'',
      dirname = fake_dirname, resolve = fake_resolve\<rparr>"

text \<open>A property group, a project and a document with the given members only.\<close>

definition group :: "string list option \<Rightarrow> string list option \<Rightarrow> string list option \<Rightarrow> property_group" where
  "group rn tf iu = \<lparr>RootNamespace = rn, TargetFramework = tf, ImplicitUsings = iu\<rparr>"

definition doc :: "property_group list option \<Rightarrow> item_group list option \<Rightarrow> import_elem list option \<Rightarrow> csproj option" where
  "doc pgs igs imps = Some \<lparr>Project = Some \<lparr>PropertyGroup = pgs, ItemGroup = igs, Import = imps\<rparr>\<rparr>"

definition import_of :: "string \<Rightarrow> import_elem" where
  "import_of ref = \<lparr>Import_attrs = Some \<lparr>Project_attr = Some ref\<rparr>\<rparr>"

text \<open>
  The bound path of the examples, a storage that holds one file at it, and a storage that
  holds a second file besides.
\<close>

definition app_csproj :: string where
  "app_csproj = ''/proj/app/app.csproj''"

definition single_env :: "string \<Rightarrow> csproj option \<Rightarrow> env" where
  "single_env content d = fake_env [(app_csproj, content)] [(content, d)]"

definition import_env :: "string \<Rightarrow> csproj option \<Rightarrow> string \<Rightarrow> string \<Rightarrow> csproj option \<Rightarrow> env" where
  "import_env content d p content' d' =
     fake_env [(app_csproj, content), (p, content')] [(content, d), (content', d')]"

definition three_groups_xml :: string where
  "three_groups_xml = ''<Project><PropertyGroup><TargetFramework>net6.0</TargetFramework></PropertyGroup><PropertyGroup><RootNamespace>First</RootNamespace><ImplicitUsings>enable</ImplicitUsings></PropertyGroup><PropertyGroup><RootNamespace>Second</RootNamespace><TargetFramework>net5.0</TargetFramework></PropertyGroup></Project>''"

definition three_groups :: "property_group list" where
  "three_groups =
     [group None (Some [''net6.0'']) None,
      group (Some [''First'']) None (Some [''enable'']),
      group (Some [''Second'']) (Some [''net5.0'']) None]"

definition empty_group_xml :: string where
  "empty_group_xml = ''<Project><PropertyGroup></PropertyGroup></Project>''"

definition groups_and_import_xml :: string where
  \<open>groups_and_import_xml = ''<Project><PropertyGroup><TargetFramework>net6.0</TargetFramework></PropertyGroup><Import Project="Common.props" /></Project>''\<close>

definition groups_and_import :: "csproj option" where
  "groups_and_import =
     doc (Some [group None (Some [''net6.0'']) None]) None (Some [import_of ''Common.props''])"

definition import_only_xml :: string where
  \<open>import_only_xml = ''<Project><Import Project="..'' @ [backslash] @ ''Common.props" /></Project>''\<close>

definition import_only :: "csproj option" where
  "import_only = doc None None (Some [import_of (''..'' @ [backslash] @ ''Common.props'')])"

definition common_props :: string where
  "common_props = ''/proj/app/../Common.props''"

definition shared_props_xml :: string where
  \<open>shared_props_xml = ''<Project><Import Project="More.props" /><PropertyGroup><RootNamespace>Shared</RootNamespace><TargetFramework>net6.0</TargetFramework></PropertyGroup></Project>''\<close>

definition shared_props :: "csproj option" where
  "shared_props =
     doc (Some [group (Some [''Shared'']) (Some [''net6.0'']) None]) None
       (Some [import_of ''More.props''])"

definition chained_props_xml :: string where
  \<open>chained_props_xml = ''<Project><Import Project="More.props" /></Project>''\<close>

definition chained_props :: "csproj option" where
  "chained_props = doc None None (Some [import_of ''More.props''])"

text \<open>
  The contents that the reader's tests call invalid, and a storage that holds one of them
  at the bound path, with a parser that answers \<^verbatim>\<open>null\<close> on the empty content and
  rejects every other content.
\<close>

definition malformed_contents :: "string list" where
  "malformed_contents = ['''', ''<'', ''<>'', ''/>'', ''<lorem>'', ''</lorem>'', ''lorem ipsum'']"

definition malformed_env :: "string \<Rightarrow> env" where
  "malformed_env content = fake_env [(app_csproj, content)] [('''', None)]"

text \<open>A project file with one property group that holds the given TargetFramework.\<close>

definition framework_xml :: "string \<Rightarrow> string" where
  "framework_xml tf =
     ''<Project><PropertyGroup><TargetFramework>'' @ tf
       @ ''</TargetFramework></PropertyGroup></Project>''"

definition framework_doc :: "string \<Rightarrow> csproj option" where
  "framework_doc tf = doc (Some [group None (Some [tf]) None]) None None"

definition framework_env :: "string \<Rightarrow> env" where
  "framework_env tf = single_env (framework_xml tf) (framework_doc tf)"

text \<open>A project file with one property group that holds the given ImplicitUsings.\<close>

definition implicit_usings_xml :: "string \<Rightarrow> string" where
  "implicit_usings_xml v =
     ''<Project><PropertyGroup><ImplicitUsings>'' @ v
       @ ''</ImplicitUsings></PropertyGroup></Project>''"

definition implicit_usings_doc :: "string \<Rightarrow> csproj option" where
  "implicit_usings_doc v = doc (Some [group None None (Some [v])]) None None"

definition implicit_usings_env :: "string \<Rightarrow> env" where
  "implicit_usings_env v = single_env (implicit_usings_xml v) (implicit_usings_doc v)"

section \<open>Basic facts\<close>

lemma find_first_index:
  assumes "i < length xs" "P (xs ! i)" "\<forall>j<i. \<not> P (xs ! j)"
  shows "find P xs = Some (xs ! i)"
  using assms by (auto simp: find_Some_iff)

lemma find_no_match: "\<forall>x\<in>set xs. \<not> P x \<Longrightarrow> find P xs = None"
  by (simp add: find_None_iff)

lemma scan_first:
  assumes "i < length groups" "\<forall>j<i. sel (groups ! j) = None" "sel (groups ! i) = Some (v # vs)"
  shows "(case find (\<lambda>p. sel p \<noteq> None) groups of
       None \<Rightarrow> None | Some p \<Rightarrow> Option.bind (sel p) at0) = Some v"
proof -
  have "find (\<lambda>p. sel p \<noteq> None) groups = Some (groups ! i)"
    using assms by (intro find_first_index) auto
  then show ?thesis using assms(3) by (simp add: at0_def)
qed

lemma scan_none:
  assumes "\<forall>g\<in>set groups. sel g = None"
  shows "(case find (\<lambda>p. sel p \<noteq> None) groups of
       None \<Rightarrow> None | Some p \<Rightarrow> Option.bind (sel p) at0) = None"
  using assms by (simp add: find_no_match)

subsection \<open>Loading a document\<close>

lemma getXmlContent_root:
  "read env f = Inr content \<Longrightarrow>
   getXmlContent env f None = (parseStringPromise env content, [Read f, Parse content])"
  by (simp add: getXmlContent_def getContent_def)

lemma getXmlContent_other:
  "read env p = Inr content \<Longrightarrow>
   getXmlContent env f (Some p) = (parseStringPromise env content, [Read p, Parse content])"
  by (simp add: getXmlContent_def getContent_def)

lemma getXmlContent_read_fails:
  "read env f = Inl e \<Longrightarrow> getXmlContent env f None = (Inl e, [Read f])"
  by (simp add: getXmlContent_def getContent_def)

subsection \<open>The branches of getPropertyGroups\<close>

lemma getPropertyGroups_own:
  assumes "read env f = Inr content" "parseStringPromise env content = Inr xmlContent"
    "Project_PropertyGroup xmlContent = Some groups"
  shows "getPropertyGroups env f = (Inr (Some groups), [Read f, Parse content])"
  using assms by (simp add: getPropertyGroups_def getXmlContent_root)

lemma getPropertyGroups_imported:
  assumes "read env f = Inr content" "parseStringPromise env content = Inr xmlContent"
    "Project_PropertyGroup xmlContent = None"
    "Project_Import xmlContent = Some (imp # others)"
    "Option.bind (Import_attrs imp) Project_attr = Some ref"
    "read env (projectPath env f ref) = Inr content'"
    "parseStringPromise env content' = Inr importXmlContent"
  shows "getPropertyGroups env f =
    (Inr (Project_PropertyGroup importXmlContent),
     [Read f, Parse content, Read (projectPath env f ref), Parse content'])"
  using assms by (simp add: getPropertyGroups_def getXmlContent_root getXmlContent_other)

lemma getPropertyGroups_parse_fails:
  assumes "read env f = Inr content" "parseStringPromise env content = Inl e"
  shows "getPropertyGroups env f = (Inl e, [Read f, Parse content])"
  using assms by (simp add: getPropertyGroups_def getXmlContent_root)

lemma getPropertyGroups_null:
  assumes "read env f = Inr content" "parseStringPromise env content = Inr None"
  shows "getPropertyGroups env f = (Inr None, [Read f, Parse content])"
  using assms
  by (simp add: getPropertyGroups_def getXmlContent_root Project_PropertyGroup_def
      Project_Import_def)

subsection \<open>The three scalar queries on the groups that getPropertyGroups returns\<close>

lemma getRootNamespace_scan:
  assumes "getPropertyGroups env f = (Inr (Some groups), t)"
  shows "getRootNamespace env f =
    (case find (\<lambda>p. RootNamespace p \<noteq> None) groups of
       None \<Rightarrow> None | Some p \<Rightarrow> Option.bind (RootNamespace p) at0, t)"
  using assms by (simp add: getRootNamespace_def split: option.splits)

lemma getTargetFramework_scan:
  assumes "getPropertyGroups env f = (Inr (Some groups), t)"
  shows "getTargetFramework env f =
    (case find (\<lambda>p. TargetFramework p \<noteq> None) groups of
       None \<Rightarrow> None | Some p \<Rightarrow> Option.bind (TargetFramework p) at0, t)"
  using assms by (simp add: getTargetFramework_def split: option.splits)

lemma useImplicitUsings_scan:
  assumes "getPropertyGroups env f = (Inr (Some groups), t)"
  shows "useImplicitUsings env f =
    (case find (\<lambda>p. ImplicitUsings p \<noteq> None) groups of
       None \<Rightarrow> False | Some p \<Rightarrow> Option.bind (ImplicitUsings p) at0 = Some ''enable'', t)"
  using assms by (simp add: useImplicitUsings_def split: option.splits)

lemma scalar_queries_no_groups:
  assumes "getPropertyGroups env f = (Inr None, t)"
  shows "getRootNamespace env f = (None, t)" "getTargetFramework env f = (None, t)"
    "useImplicitUsings env f = (False, t)"
  using assms by (simp_all add: getRootNamespace_def getTargetFramework_def useImplicitUsings_def)

lemma scalar_queries_fault:
  assumes "getPropertyGroups env f = (Inl e, t)"
  shows "getRootNamespace env f = (None, t @ [LogError e])"
    "getTargetFramework env f = (None, t @ [LogError e])"
    "useImplicitUsings env f = (False, t @ [LogError e])"
  using assms by (simp_all add: getRootNamespace_def getTargetFramework_def useImplicitUsings_def)

subsection \<open>The test doubles\<close>

lemma read_single_env: "read (single_env content d) app_csproj = Inr content"
  by (simp add: single_env_def fake_env_def fake_read_def)

lemma parse_single_env: "parseStringPromise (single_env content d) content = Inr d"
  by (simp add: single_env_def fake_env_def fake_parse_def)

lemma read_import_env_root: "read (import_env content d p content' d') app_csproj = Inr content"
  by (simp add: import_env_def fake_env_def fake_read_def)

lemma read_import_env_target:
  "p \<noteq> app_csproj \<Longrightarrow> read (import_env content d p content' d') p = Inr content'"
  by (simp add: import_env_def fake_env_def fake_read_def)

lemma parse_import_env_root:
  "parseStringPromise (import_env content d p content' d') content = Inr d"
  by (simp add: import_env_def fake_env_def fake_parse_def)

lemma parse_import_env_target:
  "content' \<noteq> content \<Longrightarrow>
   parseStringPromise (import_env content d p content' d') content' = Inr d'"
  by (simp add: import_env_def fake_env_def fake_parse_def)

lemma projectPath_import_env:
  "projectPath (import_env content d p content' d') app_csproj
     (''..'' @ [backslash] @ ''Common.props'') = common_props"
  by (simp add: projectPath_def cleanPath_def import_env_def fake_env_def fake_resolve_def
      fake_dirname_def app_csproj_def backslash_def common_props_def)

lemma PropertyGroup_doc: "Project_PropertyGroup (doc pgs igs imps) = pgs"
  by (simp add: Project_PropertyGroup_def doc_def)

lemma Import_doc: "Project_Import (doc pgs igs imps) = imps"
  by (simp add: Project_Import_def doc_def)

lemma ItemGroup_doc: "Project_ItemGroup (doc pgs igs imps) = igs"
  by (simp add: Project_ItemGroup_def doc_def)

lemma group_sel [simp]:
  "RootNamespace (group rn tf iu) = rn" "TargetFramework (group rn tf iu) = tf"
  "ImplicitUsings (group rn tf iu) = iu"
  by (simp_all add: group_def)

section \<open>Resolution of the scalar properties\<close>

text \<open>
  C1. For a document that parses and whose Project node has PropertyGroup children,
  \<open>getRootNamespace\<close> and \<open>getTargetFramework\<close> return the value of the property in the
  first group, in document order, that defines it, whatever the other groups define; when
  no group defines it the result is absent.
\<close>

theorem first_defining_group_wins:
  assumes "read env f = Inr content"
    and "parseStringPromise env content = Inr xmlContent"
    and "Project_PropertyGroup xmlContent = Some groups"
  shows "(i < length groups \<and> (\<forall>j<i. RootNamespace (groups ! j) = None)
            \<and> RootNamespace (groups ! i) = Some (v # vs)
          \<longrightarrow> fst (getRootNamespace env f) = Some v)
       \<and> ((\<forall>g\<in>set groups. RootNamespace g = None) \<longrightarrow> fst (getRootNamespace env f) = None)
       \<and> (k < length groups \<and> (\<forall>j<k. TargetFramework (groups ! j) = None)
            \<and> TargetFramework (groups ! k) = Some (w # ws)
          \<longrightarrow> fst (getTargetFramework env f) = Some w)
       \<and> ((\<forall>g\<in>set groups. TargetFramework g = None) \<longrightarrow> fst (getTargetFramework env f) = None)"
proof -
  note pg = getPropertyGroups_own [OF assms]
  have rn: "fst (getRootNamespace env f) =
      (case find (\<lambda>p. RootNamespace p \<noteq> None) groups of
         None \<Rightarrow> None | Some p \<Rightarrow> Option.bind (RootNamespace p) at0)"
    by (simp only: getRootNamespace_scan [OF pg] fst_conv)
  have tf: "fst (getTargetFramework env f) =
      (case find (\<lambda>p. TargetFramework p \<noteq> None) groups of
         None \<Rightarrow> None | Some p \<Rightarrow> Option.bind (TargetFramework p) at0)"
    by (simp only: getTargetFramework_scan [OF pg] fst_conv)
  show ?thesis
    unfolding rn tf
    by (intro conjI impI; (elim conjE)?; (rule scan_first | rule scan_none); assumption)
qed

theorem first_defining_group_wins_witness:
  "fst (getRootNamespace (single_env three_groups_xml (doc (Some three_groups) None None))
          app_csproj) = Some ''First''
   \<and> fst (getTargetFramework (single_env three_groups_xml (doc (Some three_groups) None None))
          app_csproj) = Some ''net6.0''
   \<and> fst (getRootNamespace (single_env empty_group_xml (doc (Some [group None None None]) None None))
          app_csproj) = None
   \<and> fst (getTargetFramework (single_env empty_group_xml (doc (Some [group None None None]) None None))
          app_csproj) = None"
proof -
  let ?E = "single_env three_groups_xml (doc (Some three_groups) None None)"
  let ?E' = "single_env empty_group_xml (doc (Some [group None None None]) None None)"
  have r: "read ?E app_csproj = Inr three_groups_xml"
    and r': "read ?E' app_csproj = Inr empty_group_xml"
    by (rule read_single_env)+
  have p: "parseStringPromise ?E three_groups_xml = Inr (doc (Some three_groups) None None)"
    and p': "parseStringPromise ?E' empty_group_xml = Inr (doc (Some [group None None None]) None None)"
    by (rule parse_single_env)+
  have g: "Project_PropertyGroup (doc (Some three_groups) None None) = Some three_groups"
    and g': "Project_PropertyGroup (doc (Some [group None None None]) None None)
      = Some [group None None None]"
    by (rule PropertyGroup_doc)+
  show ?thesis
    using first_defining_group_wins [OF r p g, where i = 1 and v = "''First''" and vs = "[]"
        and k = 0 and w = "''net6.0''" and ws = "[]"]
      first_defining_group_wins [OF r' p' g']
    by (simp add: three_groups_def)
qed

text \<open>
  C2. When the Project node of the root document has PropertyGroup children, each scalar
  query reads and parses the root document only, so the Import target is neither loaded
  nor parsed; and when none of the groups defines the sought property the result is
  absent (false for \<open>useImplicitUsings\<close>). The fallback is thus taken only when there
  are no PropertyGroup children.
\<close>

theorem no_import_fallback_when_groups_exist:
  assumes "read env f = Inr content"
    and "parseStringPromise env content = Inr xmlContent"
    and "Project_PropertyGroup xmlContent = Some groups"
  shows "snd (getRootNamespace env f) = [Read f, Parse content]
       \<and> snd (getTargetFramework env f) = [Read f, Parse content]
       \<and> snd (useImplicitUsings env f) = [Read f, Parse content]
       \<and> ((\<forall>g\<in>set groups. RootNamespace g = None) \<longrightarrow> fst (getRootNamespace env f) = None)
       \<and> ((\<forall>g\<in>set groups. TargetFramework g = None) \<longrightarrow> fst (getTargetFramework env f) = None)
       \<and> ((\<forall>g\<in>set groups. ImplicitUsings g = None) \<longrightarrow> fst (useImplicitUsings env f) = False)"
proof -
  note pg = getPropertyGroups_own [OF assms]
  have "snd (getRootNamespace env f) = [Read f, Parse content]"
    "snd (getTargetFramework env f) = [Read f, Parse content]"
    "snd (useImplicitUsings env f) = [Read f, Parse content]"
    by (simp_all only: getRootNamespace_scan [OF pg] getTargetFramework_scan [OF pg]
        useImplicitUsings_scan [OF pg] snd_conv)
  moreover have "fst (getRootNamespace env f) = None" if "\<forall>g\<in>set groups. RootNamespace g = None"
    using scan_none [OF that] by (simp only: getRootNamespace_scan [OF pg] fst_conv)
  moreover have "fst (getTargetFramework env f) = None" if "\<forall>g\<in>set groups. TargetFramework g = None"
    using scan_none [OF that] by (simp only: getTargetFramework_scan [OF pg] fst_conv)
  moreover have "fst (useImplicitUsings env f) = False" if "\<forall>g\<in>set groups. ImplicitUsings g = None"
    using find_no_match [of groups "\<lambda>p. ImplicitUsings p \<noteq> None"] that
    by (simp add: useImplicitUsings_scan [OF pg])
  ultimately show ?thesis by blast
qed

theorem no_import_fallback_when_groups_exist_witness:
  "getRootNamespace
     (import_env groups_and_import_xml groups_and_import ''/proj/app/Common.props''
        shared_props_xml shared_props) app_csproj
     = (None, [Read app_csproj, Parse groups_and_import_xml])
   \<and> snd (getTargetFramework
     (import_env groups_and_import_xml groups_and_import ''/proj/app/Common.props''
        shared_props_xml shared_props) app_csproj)
     = [Read app_csproj, Parse groups_and_import_xml]
   \<and> useImplicitUsings
     (import_env groups_and_import_xml groups_and_import ''/proj/app/Common.props''
        shared_props_xml shared_props) app_csproj
     = (False, [Read app_csproj, Parse groups_and_import_xml])"
proof -
  let ?E = "import_env groups_and_import_xml groups_and_import ''/proj/app/Common.props''
        shared_props_xml shared_props"
  have r: "read ?E app_csproj = Inr groups_and_import_xml"
    by (rule read_import_env_root)
  have p: "parseStringPromise ?E groups_and_import_xml = Inr groups_and_import"
    by (rule parse_import_env_root)
  have g: "Project_PropertyGroup groups_and_import = Some [group None (Some [''net6.0'']) None]"
    by (simp add: groups_and_import_def PropertyGroup_doc)
  show ?thesis
    using no_import_fallback_when_groups_exist [OF r p g]
    by (simp add: prod_eq_iff)
qed

text \<open>
  C3. When the Project node of the root document has no PropertyGroup children and has an
  Import reference whose target loads and parses, the scalar queries answer from the
  PropertyGroup children of the imported document: the value in the first group that
  defines the property, and absent when the imported document has no PropertyGroup
  children either. Exactly two documents are read, whatever Import the imported document
  contains.
\<close>

theorem single_hop_import_fallback:
  assumes "read env f = Inr content"
    and "parseStringPromise env content = Inr xmlContent"
    and "Project_PropertyGroup xmlContent = None"
    and "Project_Import xmlContent = Some (imp # others)"
    and "Option.bind (Import_attrs imp) Project_attr = Some ref"
    and "read env (projectPath env f ref) = Inr content'"
    and "parseStringPromise env content' = Inr importXmlContent"
  shows "(Project_PropertyGroup importXmlContent = Some groups \<and> i < length groups
            \<and> (\<forall>j<i. RootNamespace (groups ! j) = None)
            \<and> RootNamespace (groups ! i) = Some (v # vs)
          \<longrightarrow> fst (getRootNamespace env f) = Some v)
       \<and> (Project_PropertyGroup importXmlContent = Some groups \<and> k < length groups
            \<and> (\<forall>j<k. TargetFramework (groups ! j) = None)
            \<and> TargetFramework (groups ! k) = Some (w # ws)
          \<longrightarrow> fst (getTargetFramework env f) = Some w)
       \<and> (Project_PropertyGroup importXmlContent = None
          \<longrightarrow> fst (getRootNamespace env f) = None \<and> fst (getTargetFramework env f) = None)
       \<and> snd (getRootNamespace env f)
           = [Read f, Parse content, Read (projectPath env f ref), Parse content']
       \<and> snd (getTargetFramework env f)
           = [Read f, Parse content, Read (projectPath env f ref), Parse content']"
proof -
  let ?t = "[Read f, Parse content, Read (projectPath env f ref), Parse content']"
  note pg = getPropertyGroups_imported [OF assms]
  have some: "getPropertyGroups env f = (Inr (Some groups), ?t)"
    if "Project_PropertyGroup importXmlContent = Some groups"
    using pg that by simp
  have none: "getPropertyGroups env f = (Inr None, ?t)"
    if "Project_PropertyGroup importXmlContent = None"
    using pg that by simp
  have "fst (getRootNamespace env f) = Some v"
    if "Project_PropertyGroup importXmlContent = Some groups" "i < length groups"
      "\<forall>j<i. RootNamespace (groups ! j) = None" "RootNamespace (groups ! i) = Some (v # vs)"
    using scan_first [OF that(2-4)] by (simp only: getRootNamespace_scan [OF some [OF that(1)]] fst_conv)
  moreover have "fst (getTargetFramework env f) = Some w"
    if "Project_PropertyGroup importXmlContent = Some groups" "k < length groups"
      "\<forall>j<k. TargetFramework (groups ! j) = None" "TargetFramework (groups ! k) = Some (w # ws)"
    using scan_first [OF that(2-4)] by (simp only: getTargetFramework_scan [OF some [OF that(1)]] fst_conv)
  moreover have "fst (getRootNamespace env f) = None \<and> fst (getTargetFramework env f) = None"
    if "Project_PropertyGroup importXmlContent = None"
    by (simp add: scalar_queries_no_groups [OF none [OF that]])
  moreover have "snd (getRootNamespace env f) = ?t \<and> snd (getTargetFramework env f) = ?t"
  proof (cases "Project_PropertyGroup importXmlContent")
    case None
    then show ?thesis by (simp add: scalar_queries_no_groups [OF none])
  next
    case (Some gs)
    with pg have "getPropertyGroups env f = (Inr (Some gs), ?t)" by simp
    then show ?thesis by (simp add: getRootNamespace_scan getTargetFramework_scan)
  qed
  ultimately show ?thesis by blast
qed

theorem single_hop_import_fallback_witness:
  "getRootNamespace (import_env import_only_xml import_only common_props shared_props_xml shared_props)
     app_csproj
     = (Some ''Shared'',
        [Read app_csproj, Parse import_only_xml, Read common_props, Parse shared_props_xml])
   \<and> fst (getTargetFramework
        (import_env import_only_xml import_only common_props shared_props_xml shared_props)
        app_csproj) = Some ''net6.0''
   \<and> getRootNamespace (import_env import_only_xml import_only common_props chained_props_xml chained_props)
     app_csproj
     = (None,
        [Read app_csproj, Parse import_only_xml, Read common_props, Parse chained_props_xml])"
proof -
  let ?ref = "''..'' @ [backslash] @ ''Common.props''"
  let ?E = "import_env import_only_xml import_only common_props shared_props_xml shared_props"
  let ?E' = "import_env import_only_xml import_only common_props chained_props_xml chained_props"
  have r: "read ?E app_csproj = Inr import_only_xml"
    and r': "read ?E' app_csproj = Inr import_only_xml"
    by (rule read_import_env_root)+
  have p: "parseStringPromise ?E import_only_xml = Inr import_only"
    and p': "parseStringPromise ?E' import_only_xml = Inr import_only"
    by (rule parse_import_env_root)+
  have g: "Project_PropertyGroup import_only = None"
    by (simp add: import_only_def PropertyGroup_doc)
  have i: "Project_Import import_only = Some (import_of ?ref # [])"
    by (simp add: import_only_def Import_doc)
  have a: "Option.bind (Import_attrs (import_of ?ref)) Project_attr = Some ?ref"
    by (simp add: import_of_def)
  have ne: "common_props \<noteq> app_csproj"
    by (simp add: common_props_def app_csproj_def)
  have r2: "read ?E (projectPath ?E app_csproj ?ref) = Inr shared_props_xml"
    and r2': "read ?E' (projectPath ?E' app_csproj ?ref) = Inr chained_props_xml"
    unfolding projectPath_import_env by (rule read_import_env_target [OF ne])+
  have p2: "parseStringPromise ?E shared_props_xml = Inr shared_props"
    by (rule parse_import_env_target) (simp add: shared_props_xml_def import_only_xml_def)
  have p2': "parseStringPromise ?E' chained_props_xml = Inr chained_props"
    by (rule parse_import_env_target) (simp add: chained_props_xml_def import_only_xml_def)
  have gs: "Project_PropertyGroup shared_props
      = Some [group (Some [''Shared'']) (Some [''net6.0'']) None]"
    and gc: "Project_PropertyGroup chained_props = None"
    by (simp_all add: shared_props_def chained_props_def PropertyGroup_doc)
  show ?thesis
    using single_hop_import_fallback [OF r p g i a r2 p2,
        where groups = "[group (Some [''Shared'']) (Some [''net6.0'']) None]"
        and i = 0 and v = "''Shared''" and vs = "[]" and k = 0 and w = "''net6.0''" and ws = "[]",
        unfolded projectPath_import_env]
      single_hop_import_fallback [OF r' p' g i a r2' p2', unfolded projectPath_import_env] gs gc
    by (simp add: prod_eq_iff)
qed

section \<open>Malformed documents\<close>

lemma read_malformed_env: "read (malformed_env content) app_csproj = Inr content"
  by (simp add: malformed_env_def fake_env_def fake_read_def)

lemma parse_malformed_env:
  "parseStringPromise (malformed_env content) c = (if c = [] then Inr None else Inl ParseError)"
  by (simp add: malformed_env_def fake_env_def fake_parse_def)

text \<open>
  What holds of the two using-directive queries: they read the root document only, and a
  document without ItemGroup elements gives the empty list.
\<close>

lemma getUsings_no_ItemGroup:
  assumes "read env f = Inr content" "parseStringPromise env content = Inr xmlContent"
    "Project_ItemGroup xmlContent = None"
  shows "getUsingsInclude env f = (Inr [], [Read f, Parse content])"
    "getUsingsRemove env f = (Inr [], [Read f, Parse content])"
  using assms
  by (simp_all add: getUsingsInclude_def getUsingsRemove_def getUsings_def getXmlContent_root
      List.map_filter_simps)

lemma getUsings_parse_fails:
  assumes "read env f = Inr content" "parseStringPromise env content = Inl e"
  shows "getUsingsInclude env f = (Inl e, [Read f, Parse content])"
    "getUsingsRemove env f = (Inl e, [Read f, Parse content])"
  using assms
  by (simp_all add: getUsingsInclude_def getUsingsRemove_def getUsings_def getXmlContent_root)

text \<open>
  C4. \<open>getUsingsInclude\<close> and \<open>getUsingsRemove\<close> are claimed to return the empty list
  and never to raise when the document fails to parse. \<open>getUsings\<close> has no handler
  around \<open>getXmlContent\<close>, unlike the three scalar queries: on a content that the parser
  rejects, both queries reject with the parser's fault.
\<close>

theorem usings_parse_fault_escapes:
  "getUsingsInclude (malformed_env ''<lorem>'') app_csproj
     = (Inl ParseError, [Read app_csproj, Parse ''<lorem>''])
   \<and> getUsingsRemove (malformed_env ''<lorem>'') app_csproj
     = (Inl ParseError, [Read app_csproj, Parse ''<lorem>''])"
  by (simp add: getUsings_parse_fails [OF read_malformed_env] parse_malformed_env)

text \<open>
  C5. For each of the seven malformed contents, whenever the parser rejects it or answers
  \<^verbatim>\<open>null\<close>, \<open>getRootNamespace\<close> and \<open>getTargetFramework\<close> return absent and
  \<open>useImplicitUsings\<close> returns false. The three queries return a value in every case:
  their results carry no fault.
\<close>

theorem malformed_content_yields_absent:
  assumes "content \<in> set malformed_contents"
    and "read env f = Inr content"
    and "\<forall>c\<in>set malformed_contents.
           isl (parseStringPromise env c) \<or> parseStringPromise env c = Inr None"
  shows "fst (getRootNamespace env f) = None
       \<and> fst (getTargetFramework env f) = None
       \<and> fst (useImplicitUsings env f) = False"
proof -
  from assms(1,3) consider (rejected) e where "parseStringPromise env content = Inl e"
    | (null) "parseStringPromise env content = Inr None"
    by (auto simp: isl_def)
  then show ?thesis
  proof cases
    case rejected
    note pg = getPropertyGroups_parse_fails [OF assms(2) rejected]
    show ?thesis by (simp add: scalar_queries_fault [OF pg])
  next
    case null
    note pg = getPropertyGroups_null [OF assms(2) null]
    show ?thesis by (simp add: scalar_queries_no_groups [OF pg])
  qed
qed

theorem malformed_content_yields_absent_witness:
  "list_all (\<lambda>c. fst (getRootNamespace (malformed_env c) app_csproj) = None
       \<and> fst (getTargetFramework (malformed_env c) app_csproj) = None
       \<and> fst (useImplicitUsings (malformed_env c) app_csproj) = False)
     ['''', ''<'', ''<>'', ''/>'', ''<lorem>'', ''</lorem>'', ''lorem ipsum'']"
proof -
  have "fst (getRootNamespace (malformed_env c) app_csproj) = None
       \<and> fst (getTargetFramework (malformed_env c) app_csproj) = None
       \<and> fst (useImplicitUsings (malformed_env c) app_csproj) = False"
    if "c \<in> set malformed_contents" for c
    using that
    by (rule malformed_content_yields_absent [OF _ read_malformed_env])
      (simp add: parse_malformed_env)
  then show ?thesis
    unfolding list_all_iff malformed_contents_def by blast
qed

section \<open>The version check\<close>

lemma isDigit_simps [simp]:
  "isDigit (CHR ''0'')" "isDigit (CHR ''1'')" "isDigit (CHR ''2'')" "isDigit (CHR ''3'')"
  "isDigit (CHR ''4'')" "isDigit (CHR ''5'')" "isDigit (CHR ''6'')" "isDigit (CHR ''7'')"
  "isDigit (CHR ''8'')" "isDigit (CHR ''9'')" "\<not> isDigit (CHR ''.'')"
  by (simp_all add: isDigit_def)

lemma version_match_Nil [simp]: "version_match [] = None"
  by simp

lemma version_check_fst:
  "fst (isTargetFrameworkHigherThanOrEqualToDotNet6 env f) =
     (case fst (getTargetFramework env f) of
        None \<Rightarrow> None
      | Some tf \<Rightarrow>
          if tf = [] then None
          else (case version_match tf of None \<Rightarrow> Some False | Some m \<Rightarrow> Some (Number_ge_6 m)))"
  by (simp add: isTargetFrameworkHigherThanOrEqualToDotNet6_def Number_isNaN_def
      split: prod.splits option.splits)

lemma version_match_net6: "version_match ''net6.0'' = Some ''6.0''"
  by (simp add: net_ci_def isDigit_def numeric_run_def)

lemma version_match_net5: "version_match ''net5.0'' = Some ''5.0''"
  by (simp add: net_ci_def isDigit_def numeric_run_def)

lemma version_match_netcoreapp31: "version_match ''netcoreapp3.1'' = None"
  by (simp add: net_ci_def isDigit_def)

lemma Number_ge_6_60: "Number_ge_6 ''6.0''"
  by (simp add: Number_ge_6_def decimal_value_def digits_value_def isDigit_def)

lemma Number_ge_6_50: "\<not> Number_ge_6 ''5.0''"
  by (simp add: Number_ge_6_def decimal_value_def digits_value_def isDigit_def)

lemma getTargetFramework_framework_env:
  "getTargetFramework (framework_env tf) app_csproj
     = (Some tf, [Read app_csproj, Parse (framework_xml tf)])"
proof -
  have "getPropertyGroups (framework_env tf) app_csproj
      = (Inr (Some [group None (Some [tf]) None]), [Read app_csproj, Parse (framework_xml tf)])"
    unfolding framework_env_def
    by (rule getPropertyGroups_own [OF read_single_env parse_single_env])
      (simp add: framework_doc_def PropertyGroup_doc)
  from getTargetFramework_scan [OF this] show ?thesis by (simp add: at0_def)
qed

text \<open>
  C6. \<open>isTargetFrameworkHigherThanOrEqualToDotNet6\<close> is true when the resolved
  TargetFramework is net6.0, false when it is net5.0, false when it is netcoreapp3.1
  (no digit follows its only "net"), and absent, not false, when no TargetFramework is
  resolved.
\<close>

theorem dotnet6_comparator_table:
  "(fst (getTargetFramework env f) = Some ''net6.0''
      \<longrightarrow> fst (isTargetFrameworkHigherThanOrEqualToDotNet6 env f) = Some True)
   \<and> (fst (getTargetFramework env f) = Some ''net5.0''
      \<longrightarrow> fst (isTargetFrameworkHigherThanOrEqualToDotNet6 env f) = Some False)
   \<and> (fst (getTargetFramework env f) = Some ''netcoreapp3.1''
      \<longrightarrow> fst (isTargetFrameworkHigherThanOrEqualToDotNet6 env f) = Some False)
   \<and> (fst (getTargetFramework env f) = None
      \<longrightarrow> fst (isTargetFrameworkHigherThanOrEqualToDotNet6 env f) = None)"
proof -
  have "fst (isTargetFrameworkHigherThanOrEqualToDotNet6 env f) = Some True"
    if "fst (getTargetFramework env f) = Some ''net6.0''"
    unfolding version_check_fst that
    by (simp add: version_match_net6 Number_ge_6_60 del: version_match.simps)
  moreover have "fst (isTargetFrameworkHigherThanOrEqualToDotNet6 env f) = Some False"
    if "fst (getTargetFramework env f) = Some ''net5.0''"
    unfolding version_check_fst that
    by (simp add: version_match_net5 Number_ge_6_50 del: version_match.simps)
  moreover have "fst (isTargetFrameworkHigherThanOrEqualToDotNet6 env f) = Some False"
    if "fst (getTargetFramework env f) = Some ''netcoreapp3.1''"
    unfolding version_check_fst that
    by (simp add: version_match_netcoreapp31 del: version_match.simps)
  moreover have "fst (isTargetFrameworkHigherThanOrEqualToDotNet6 env f) = None"
    if "fst (getTargetFramework env f) = None"
    unfolding version_check_fst that by simp
  ultimately show ?thesis by blast
qed

theorem dotnet6_comparator_table_witness:
  "fst (isTargetFrameworkHigherThanOrEqualToDotNet6 (framework_env ''net6.0'') app_csproj) = Some True
   \<and> fst (isTargetFrameworkHigherThanOrEqualToDotNet6 (framework_env ''net5.0'') app_csproj) = Some False
   \<and> fst (isTargetFrameworkHigherThanOrEqualToDotNet6 (framework_env ''netcoreapp3.1'') app_csproj)
       = Some False
   \<and> fst (isTargetFrameworkHigherThanOrEqualToDotNet6
        (single_env empty_group_xml (doc (Some [group None None None]) None None)) app_csproj) = None"
proof -
  let ?E = "single_env empty_group_xml (doc (Some [group None None None]) None None)"
  have "getPropertyGroups ?E app_csproj
      = (Inr (Some [group None None None]), [Read app_csproj, Parse empty_group_xml])"
    by (rule getPropertyGroups_own [OF read_single_env parse_single_env PropertyGroup_doc])
  from getTargetFramework_scan [OF this]
  have none: "fst (getTargetFramework ?E app_csproj) = None"
    by simp
  show ?thesis
    using dotnet6_comparator_table [of "framework_env ''net6.0''" app_csproj]
      dotnet6_comparator_table [of "framework_env ''net5.0''" app_csproj]
      dotnet6_comparator_table [of "framework_env ''netcoreapp3.1''" app_csproj]
      dotnet6_comparator_table [of ?E app_csproj] none
    by (simp add: getTargetFramework_framework_env)
qed

lemma decimal_value_two_dots:
  assumes "2 \<le> count_list m (CHR ''.'')"
  shows "decimal_value m = None"
proof -
  let ?ip = "takeWhile (\<lambda>c. c \<noteq> CHR ''.'') m"
  let ?r = "dropWhile (\<lambda>c. c \<noteq> CHR ''.'') m"
  have "count_list ?ip (CHR ''.'') = 0"
    by (rule count_notin) (auto dest: set_takeWhileD)
  moreover have "count_list m (CHR ''.'') = count_list ?ip (CHR ''.'') + count_list ?r (CHR ''.'')"
    by (metis count_list_append takeWhile_dropWhile_id)
  ultimately have r2: "2 \<le> count_list ?r (CHR ''.'')"
    using assms by simp
  then obtain c fp where r: "?r = c # fp"
    by (cases ?r) auto
  then have "c = CHR ''.''"
    using hd_dropWhile [of "\<lambda>c. c \<noteq> CHR ''.''" m] by auto
  with r r2 have "1 \<le> count_list fp (CHR ''.'')" by simp
  then have "CHR ''.'' \<in> set fp"
    by (metis count_notin not_one_le_zero)
  then have "\<not> list_all isDigit fp"
    unfolding list_all_iff using isDigit_simps(11) by blast
  with r show ?thesis
    by (simp add: decimal_value_def Let_def)
qed

text \<open>
  C10. When the text matched after "net" has two or more dots, as in net6.0.1, it is not a
  decimal literal, \<^verbatim>\<open>Number\<close> gives \<^verbatim>\<open>NaN\<close>, and the check returns false, whatever
  its leading segments are.
\<close>

theorem multi_dot_version_is_false:
  assumes "fst (getTargetFramework env f) = Some tf"
    and "version_match tf = Some m"
    and "2 \<le> count_list m (CHR ''.'')"
  shows "fst (isTargetFrameworkHigherThanOrEqualToDotNet6 env f) = Some False"
proof -
  from assms(2) have "tf \<noteq> []" by auto
  moreover have "\<not> Number_ge_6 m"
    by (simp add: Number_ge_6_def decimal_value_two_dots [OF assms(3)])
  ultimately show ?thesis
    unfolding version_check_fst assms(1) using assms(2) by simp
qed

lemma version_match_net601: "version_match ''net6.0.1'' = Some ''6.0.1''"
  by (simp add: net_ci_def isDigit_def numeric_run_def)

theorem multi_dot_version_is_false_witness:
  "version_match ''net6.0.1'' = Some ''6.0.1''
   \<and> fst (isTargetFrameworkHigherThanOrEqualToDotNet6 (framework_env ''net6.0.1'') app_csproj)
       = Some False"
proof -
  have "fst (getTargetFramework (framework_env ''net6.0.1'') app_csproj) = Some ''net6.0.1''"
    by (simp add: getTargetFramework_framework_env)
  from multi_dot_version_is_false [OF this version_match_net601] version_match_net601
  show ?thesis by simp
qed

text \<open>
  C7 as stated fails on the empty moniker: \<^verbatim>\<open><TargetFramework></TargetFramework>\<close>
  resolves to the empty string, which is not absent and has no numeric run after "net",
  and the check returns absent, not false: the guard \<^verbatim>\<open>!targetFramework\<close> takes the
  empty string for a missing framework.
\<close>

theorem empty_framework_is_absent:
  "fst (getTargetFramework (framework_env []) app_csproj) = Some []
   \<and> version_match [] = None
   \<and> fst (isTargetFrameworkHigherThanOrEqualToDotNet6 (framework_env []) app_csproj) = None"
  by (simp add: version_check_fst getTargetFramework_framework_env)

text \<open>
  C7, amended. For every resolved, non-empty TargetFramework in which no numeric run
  follows "net", or in which that run is not a decimal literal, the check returns false
  (not absent).
\<close>

theorem unparsable_version_is_false:
  assumes "fst (getTargetFramework env f) = Some tf"
    and "tf \<noteq> []"
    and "version_match tf = None \<or> (\<exists>m. version_match tf = Some m \<and> decimal_value m = None)"
  shows "fst (isTargetFrameworkHigherThanOrEqualToDotNet6 env f) = Some False"
  unfolding version_check_fst assms(1) using assms(2,3)
  by (auto simp: Number_ge_6_def)

lemma version_match_netstandard: "version_match ''netstandard2.0'' = None"
  by (simp add: net_ci_def isDigit_def)

lemma version_match_net472: "version_match ''net4.7.2'' = Some ''4.7.2''"
  by (simp add: net_ci_def isDigit_def numeric_run_def)

lemma decimal_value_472: "decimal_value ''4.7.2'' = None"
  by (simp add: decimal_value_def isDigit_def)

theorem unparsable_version_is_false_witness:
  "fst (isTargetFrameworkHigherThanOrEqualToDotNet6 (framework_env ''netstandard2.0'') app_csproj)
     = Some False
   \<and> fst (isTargetFrameworkHigherThanOrEqualToDotNet6 (framework_env ''net4.7.2'') app_csproj)
     = Some False"
proof -
  have a: "fst (getTargetFramework (framework_env ''netstandard2.0'') app_csproj) = Some ''netstandard2.0''"
    and b: "fst (getTargetFramework (framework_env ''net4.7.2'') app_csproj) = Some ''net4.7.2''"
    by (simp_all add: getTargetFramework_framework_env)
  have "version_match ''net4.7.2'' = None
      \<or> (\<exists>m. version_match ''net4.7.2'' = Some m \<and> decimal_value m = None)"
    using version_match_net472 decimal_value_472 by simp
  from unparsable_version_is_false [OF a _ disjI1 [OF version_match_netstandard]]
    unparsable_version_is_false [OF b _ this]
  show ?thesis by simp
qed

section \<open>ImplicitUsings\<close>

lemma getPropertyGroups_implicit_usings_env:
  "getPropertyGroups (implicit_usings_env v) app_csproj
     = (Inr (Some [group None None (Some [v])]), [Read app_csproj, Parse (implicit_usings_xml v)])"
  unfolding implicit_usings_env_def
  by (rule getPropertyGroups_own [OF read_single_env parse_single_env])
    (simp add: implicit_usings_doc_def PropertyGroup_doc)

text \<open>
  C8. \<open>useImplicitUsings\<close> is true exactly when the first property group that defines
  ImplicitUsings holds the value \<^verbatim>\<open>enable\<close>, compared as it is written; no such group,
  any other value and a fault while loading or parsing all give false.
\<close>

theorem implicit_usings_iff_enable:
  "(fst (useImplicitUsings env f) =
      (\<exists>groups t p vs. getPropertyGroups env f = (Inr (Some groups), t)
         \<and> find (\<lambda>p. ImplicitUsings p \<noteq> None) groups = Some p
         \<and> ImplicitUsings p = Some (''enable'' # vs)))
   \<and> (isl (fst (getPropertyGroups env f)) \<longrightarrow> fst (useImplicitUsings env f) = False)"
proof -
  obtain r t where pg: "getPropertyGroups env f = (r, t)"
    by (cases "getPropertyGroups env f")
  show ?thesis
  proof (cases r)
    case (Inl e)
    with pg show ?thesis by (simp add: scalar_queries_fault(3) [of env f e t])
  next
    case (Inr gso)
    show ?thesis
    proof (cases gso)
      case None
      with pg Inr show ?thesis by (simp add: scalar_queries_no_groups(3) [of env f t])
    next
      case (Some groups)
      with pg Inr have pg': "getPropertyGroups env f = (Inr (Some groups), t)" by simp
      show ?thesis
      proof (cases "find (\<lambda>p. ImplicitUsings p \<noteq> None) groups")
        case None
        then show ?thesis by (simp add: useImplicitUsings_scan [OF pg'] pg')
      next
        case (Some p)
        then obtain xs where xs: "ImplicitUsings p = Some xs"
          by (auto simp: find_Some_iff)
        show ?thesis
          using Some xs by (cases xs) (auto simp: useImplicitUsings_scan [OF pg'] pg' at0_def)
      qed
    qed
  qed
qed

theorem implicit_usings_iff_enable_witness:
  "fst (useImplicitUsings (implicit_usings_env ''enable'') app_csproj) = True
   \<and> fst (useImplicitUsings (implicit_usings_env ''Enable'') app_csproj) = False
   \<and> fst (useImplicitUsings (implicit_usings_env ''disable'') app_csproj) = False
   \<and> fst (useImplicitUsings (framework_env ''net6.0'') app_csproj) = False
   \<and> fst (useImplicitUsings (malformed_env ''<lorem>'') app_csproj) = False"
proof -
  have tf: "getPropertyGroups (framework_env ''net6.0'') app_csproj
     = (Inr (Some [group None (Some [''net6.0'']) None]),
        [Read app_csproj, Parse (framework_xml ''net6.0'')])"
    unfolding framework_env_def
    by (rule getPropertyGroups_own [OF read_single_env parse_single_env])
      (simp add: framework_doc_def PropertyGroup_doc)
  have bad: "getPropertyGroups (malformed_env ''<lorem>'') app_csproj
     = (Inl ParseError, [Read app_csproj, Parse ''<lorem>''])"
    by (rule getPropertyGroups_parse_fails [OF read_malformed_env]) (simp add: parse_malformed_env)
  show ?thesis
    using implicit_usings_iff_enable [of "implicit_usings_env ''enable''" app_csproj]
      implicit_usings_iff_enable [of "implicit_usings_env ''Enable''" app_csproj]
      implicit_usings_iff_enable [of "implicit_usings_env ''disable''" app_csproj]
      implicit_usings_iff_enable [of "framework_env ''net6.0''" app_csproj]
      implicit_usings_iff_enable [of "malformed_env ''<lorem>''" app_csproj]
    by (simp add: getPropertyGroups_implicit_usings_env tf bad)
qed

section \<open>The import reference\<close>

text \<open>
  C9. The separators of the Import reference are claimed to be normalized, all of them.
  \<^verbatim>\<open>replace\<close> with a string pattern replaces the first occurrence only: on a POSIX
  platform the second backslash of \<^verbatim>\<open>..\..\Common.props\<close> stays, in \<open>cleanPath\<close> and
  in the path that is resolved against the directory of the bound file.
\<close>

theorem second_separator_not_normalized:
  "cleanPath (fake_env [] []) (''..'' @ [backslash] @ ''..'' @ [backslash] @ ''Common.props'')
     = ''../..'' @ [backslash] @ ''Common.props''
   \<and> projectPath (fake_env [] []) app_csproj
       (''..'' @ [backslash] @ ''..'' @ [backslash] @ ''Common.props'')
     = ''/proj/app/../..'' @ [backslash] @ ''Common.props''"
  by (simp add: cleanPath_def projectPath_def fake_env_def backslash_def fake_resolve_def
      fake_dirname_def app_csproj_def)

end
